theory Spec2Isabelle
  imports Complex_Main
begin

section \<open>Alpha-Ledger-Core: the execution simulation engine\<close>

text \<open>
  A shallow embedding of the backtesting core: the slippage model
  (\<^verbatim>\<open>execution/slippage.py\<close>), the cost model (\<^verbatim>\<open>execution/fees.py\<close>), the
  position sizer (\<^verbatim>\<open>risk_engine/sizing.py\<close>), the compliance gate
  (\<^verbatim>\<open>risk_engine/compliance.py\<close>), the order manager
  (\<^verbatim>\<open>execution/order_manager.py\<close>), the trade ledger (\<^verbatim>\<open>analytics/ledger.py\<close>)
  and the event loop of \<^verbatim>\<open>main.py\<close>.

  Python floats are modelled as \<^typ>\<open>real\<close>: the arithmetic is the ideal one, without
  rounding, overflow or NaN. Python ints are \<^typ>\<open>int\<close>. The strings that the code
  compares (\<^verbatim>\<open>side\<close>, \<^verbatim>\<open>order_type\<close>, \<^verbatim>\<open>asset_type\<close>) stay strings, so every
  \<^verbatim>\<open>if\<close>/\<^verbatim>\<open>elif\<close> chain keeps its fall-through branch. Every place where the
  Python raises is a branch returning \<open>Inl\<close> of the exception.
\<close>

datatype error = TypeError | KeyError | AttributeError | ZeroDivisionError | ValueError

subsection \<open>SlippageModel\<close>

text \<open>\<^verbatim>\<open>SlippageModel.__init__\<close>: the object holds \<^verbatim>\<open>base_slippage = base_bps / 10000.0\<close>.\<close>

record slippage_model =
  base_slippage :: real

definition SlippageModel :: "real \<Rightarrow> slippage_model" where
  "SlippageModel base_bps = \<lparr>base_slippage = base_bps / 10000\<rparr>"

text \<open>
  \<^verbatim>\<open>calculate_fill_price(target_price, side, volatility=None)\<close>. The test
  \<^verbatim>\<open>if volatility and volatility > 0.01\<close> is false for \<^verbatim>\<open>None\<close> and for \<^verbatim>\<open>0.0\<close>.
  Every side other than \<^verbatim>\<open>"BUY"\<close> takes the \<^verbatim>\<open>else\<close> branch.
\<close>

definition calculate_fill_price :: "slippage_model \<Rightarrow> real \<Rightarrow> string \<Rightarrow> real option \<Rightarrow> real" where
  "calculate_fill_price m target_price side volatility =
     (let impact = base_slippage m;
          impact = (case volatility of
                      None \<Rightarrow> impact
                    | Some v \<Rightarrow> if v \<noteq> 0 \<and> v > 0.01 then impact * 2 else impact)
      in if side = ''BUY'' then target_price * (1 + impact)
         else target_price * (1 - impact))"

subsection \<open>CostModel: IndianTaxModel\<close>

text \<open>
  \<^verbatim>\<open>TradeCost\<close> and its \<^verbatim>\<open>breakdown\<close> dictionary, whose keys are the fields of the
  record \<open>breakdown\<close>. The dictionary of the source has no entry for the SEBI fee
  (\<^verbatim>\<open>sebi_charges\<close>): that fee is only part of the GST base and of the total.
\<close>

record breakdown =
  Turnover :: real
  Brokerage :: real
  STT :: real
  Exchange_Charges :: real
  Stamp_Duty :: real
  GST :: real
  Total_Charges :: real

record trade_cost =
  total_cost :: real
  breakdown :: breakdown

text \<open>\<^verbatim>\<open>IndianTaxModel.__init__(brokerage_per_order=20.0)\<close>.\<close>

record indian_tax_model =
  brokerage :: real

definition IndianTaxModel :: "real \<Rightarrow> indian_tax_model" where
  "IndianTaxModel brokerage_per_order = \<lparr>brokerage = brokerage_per_order\<rparr>"

text \<open>\<^verbatim>\<open>IndianTaxModel.calculate(price, quantity, side, asset_type="EQUITY")\<close>.\<close>

definition calculate :: "indian_tax_model \<Rightarrow> real \<Rightarrow> int \<Rightarrow> string \<Rightarrow> string \<Rightarrow> trade_cost" where
  "calculate self price qty side asset_type =
     (let turnover = price * of_int qty;
          brokerage = min (turnover * 0.0003) (brokerage self);
          stt = (if asset_type = ''EQUITY'' then turnover * 0.001
                 else if asset_type = ''INTRADAY'' \<and> side = ''SELL'' then turnover * 0.00025
                 else 0);
          exchange_charges = turnover * 0.0000345;
          sebi_charges = turnover * 0.000001;
          stamp_duty = (if side = ''BUY'' then turnover * 0.00015 else 0);
          gst = (brokerage + exchange_charges + sebi_charges) * 0.18;
          total_tax_and_fees = brokerage + stt + exchange_charges + sebi_charges + stamp_duty + gst
      in \<lparr>total_cost = total_tax_and_fees,
          breakdown = \<lparr>Turnover = turnover, Brokerage = brokerage, STT = stt,
                       Exchange_Charges = exchange_charges, Stamp_Duty = stamp_duty,
                       GST = gst, Total_Charges = total_tax_and_fees\<rparr>\<rparr>)"

subsection \<open>PositionSizer\<close>

text \<open>\<^verbatim>\<open>PositionSizer.__init__(target_volatility_annual=0.20)\<close>.\<close>

record position_sizer =
  target_vol :: real

definition PositionSizer :: "real \<Rightarrow> position_sizer" where
  "PositionSizer target_volatility_annual = \<lparr>target_vol = target_volatility_annual\<rparr>"

text \<open>
  \<^verbatim>\<open>calculate_quantity(capital, price, recent_volatility_daily)\<close>. \<open>vol_scalar\<close> is
  the local variable of that name after the \<^verbatim>\<open>min\<close>. The floor division
  \<^verbatim>\<open>allocation_amount // price\<close> has no value for \<^verbatim>\<open>price = 0\<close>: on Python floats
  it raises ZeroDivisionError, and on numpy floats the conversion \<^verbatim>\<open>int(...)\<close> of
  the quotient raises.
\<close>

definition vol_scalar :: "position_sizer \<Rightarrow> real \<Rightarrow> real" where
  "vol_scalar self recent_volatility_daily =
     (let target_daily_vol = target_vol self / sqrt 252;
          vol_scalar = target_daily_vol / recent_volatility_daily
      in min vol_scalar 1)"

definition calculate_quantity :: "position_sizer \<Rightarrow> real \<Rightarrow> real \<Rightarrow> real \<Rightarrow> error + int" where
  "calculate_quantity self capital price recent_volatility_daily =
     (if recent_volatility_daily \<le> 0 then Inr 0
      else let allocation_amount = capital * vol_scalar self recent_volatility_daily
           in if price = 0 then Inl ZeroDivisionError
              else Inr \<lfloor>allocation_amount / price\<rfloor>)"

subsection \<open>RiskCompliance\<close>

text \<open>The configuration dictionary; a missing key is \<open>None\<close> and takes the default
  of \<^verbatim>\<open>config.get\<close>.\<close>

record config =
  max_drawdown_limit :: "real option"
  max_sector_exposure :: "real option"
  max_positions :: "int option"

record risk_compliance =
  max_dd :: real
  max_sector :: real
  max_pos :: int

definition RiskCompliance :: "config \<Rightarrow> risk_compliance" where
  "RiskCompliance cfg =
     \<lparr>max_dd = (case max_drawdown_limit cfg of None \<Rightarrow> 0.15 | Some v \<Rightarrow> v),
      max_sector = (case max_sector_exposure cfg of None \<Rightarrow> 0.30 | Some v \<Rightarrow> v),
      max_pos = (case max_positions cfg of None \<Rightarrow> 10 | Some v \<Rightarrow> v)\<rparr>"

text \<open>
  The two dictionaries that \<^verbatim>\<open>check_trade_permission\<close> reads. A key that may be
  missing is an option. \<^verbatim>\<open>positions\<close> is a dictionary of which only the length is
  read; it is the list of its items.
\<close>

record portfolio =
  positions :: "(string \<times> int) list option"
  current_drawdown :: "real option"
  sector_allocation :: "(string \<rightharpoonup> real) option"
  total_equity :: "real option"

record trade =
  trade_side :: "string option"
  sector :: "string option"
  capital_impact :: "real option"

text \<open>
  The returned dictionary \<^verbatim>\<open>{'allowed': bool, 'reason': str}\<close>. The reason is kept
  structured, one constructor for each message of the source with the values that the
  f-string interpolates:
  \<^item> \<open>Max_positions_reached a m\<close> is \<^verbatim>\<open>"REJECTED: Max positions reached (a/m)"\<close>;
  \<^item> \<open>Critical_drawdown d m\<close> is
    \<^verbatim>\<open>"REJECTED: Portfolio in critical drawdown (d > m). Trading Halted."\<close>;
  \<^item> \<open>Sector_limit_exceeded s n m\<close> is
    \<^verbatim>\<open>"REJECTED: Sector Limit Exceeded for s. New: n, Limit: m"\<close>;
  \<^item> \<open>Checks_passed\<close> is \<^verbatim>\<open>"Compliance Checks Passed"\<close>.
\<close>

datatype reason =
    Max_positions_reached nat int
  | Critical_drawdown real real
  | Sector_limit_exceeded string real real
  | Checks_passed

record decision =
  allowed :: bool
  reason :: reason

text \<open>
  The local variables of \<^verbatim>\<open>check_trade_permission\<close> with their defaults:
  \<^verbatim>\<open>active_positions = len(current_portfolio.get('positions', {}))\<close>,
  \<^verbatim>\<open>current_dd = current_portfolio.get('current_drawdown', 0.0)\<close>,
  \<^verbatim>\<open>current_sector_alloc\<close>, \<^verbatim>\<open>trade_impact\<close> and \<^verbatim>\<open>total_capital\<close>.
\<close>

definition active_positions :: "portfolio \<Rightarrow> nat" where
  "active_positions current_portfolio =
     length (case positions current_portfolio of None \<Rightarrow> [] | Some d \<Rightarrow> d)"

definition current_dd :: "portfolio \<Rightarrow> real" where
  "current_dd current_portfolio =
     (case current_drawdown current_portfolio of None \<Rightarrow> 0 | Some d \<Rightarrow> d)"

definition current_sector_alloc :: "portfolio \<Rightarrow> string \<Rightarrow> real" where
  "current_sector_alloc current_portfolio target_sector =
     (case sector_allocation current_portfolio of
        None \<Rightarrow> 0
      | Some m \<Rightarrow> (case m target_sector of None \<Rightarrow> 0 | Some a \<Rightarrow> a))"

definition trade_impact :: "trade \<Rightarrow> real" where
  "trade_impact proposed_trade =
     (case capital_impact proposed_trade of None \<Rightarrow> 0 | Some c \<Rightarrow> c)"

definition total_capital :: "portfolio \<Rightarrow> real" where
  "total_capital current_portfolio =
     (case total_equity current_portfolio of None \<Rightarrow> 1 | Some c \<Rightarrow> c)"

text \<open>
  \<^verbatim>\<open>check_trade_permission(current_portfolio, proposed_trade)\<close>. In the first test
  \<^verbatim>\<open>proposed_trade['side']\<close> is read only when the count has reached the limit
  (\<^verbatim>\<open>and\<close> short-circuits), and raises KeyError when the key is missing. The
  sector check runs for a truthy sector only: present and not the empty string. The
  division \<^verbatim>\<open>trade_impact / total_capital\<close> raises on zero.
\<close>

definition check_trade_permission :: "risk_compliance \<Rightarrow> portfolio \<Rightarrow> trade \<Rightarrow> error + decision" where
  "check_trade_permission self current_portfolio proposed_trade =
     (case (if int (active_positions current_portfolio) \<ge> max_pos self
            then (case trade_side proposed_trade of
                    None \<Rightarrow> Inl KeyError
                  | Some s \<Rightarrow> Inr (s = ''ENTRY''))
            else Inr False) of
        Inl e \<Rightarrow> Inl e
      | Inr True \<Rightarrow>
          Inr \<lparr>allowed = False,
               reason = Max_positions_reached (active_positions current_portfolio) (max_pos self)\<rparr>
      | Inr False \<Rightarrow>
          if current_dd current_portfolio > max_dd self
          then Inr \<lparr>allowed = False,
                    reason = Critical_drawdown (current_dd current_portfolio) (max_dd self)\<rparr>
          else (case sector proposed_trade of
                  None \<Rightarrow> Inr \<lparr>allowed = True, reason = Checks_passed\<rparr>
                | Some target_sector \<Rightarrow>
                    if target_sector = [] then Inr \<lparr>allowed = True, reason = Checks_passed\<rparr>
                    else if total_capital current_portfolio = 0 then Inl ZeroDivisionError
                    else
                      (let new_exposure = current_sector_alloc current_portfolio target_sector
                             + trade_impact proposed_trade / total_capital current_portfolio
                       in if new_exposure > max_sector self
                          then Inr \<lparr>allowed = False,
                                    reason = Sector_limit_exceeded target_sector new_exposure (max_sector self)\<rparr>
                          else Inr \<lparr>allowed = True, reason = Checks_passed\<rparr>)))"

subsection \<open>TradeLedger\<close>

text \<open>One entry of \<^verbatim>\<open>TradeLedger.trades\<close>. Dates are timestamps; the entry and exit
  dates are whatever \<^verbatim>\<open>fill_time\<close> of an order holds, which may be \<^verbatim>\<open>None\<close>.\<close>

record trade_record =
  tr_ticker :: string
  tr_side :: string
  tr_entry_date :: "nat option"
  tr_exit_date :: "nat option"
  tr_entry_price :: real
  tr_exit_price :: real
  tr_quantity :: int
  tr_fees :: real
  tr_gross_pnl :: real
  tr_net_pnl :: real
  tr_return_pct :: real

text \<open>
  \<^verbatim>\<open>TradeLedger.log_trade\<close>; the first argument is \<^verbatim>\<open>self.trades\<close>, returned with
  the record appended. With a positive entry price and quantity zero the division
  \<^verbatim>\<open>net_pnl / (entry_price * quantity)\<close> raises ZeroDivisionError.
\<close>

definition log_trade ::
  "trade_record list \<Rightarrow> string \<Rightarrow> nat option \<Rightarrow> nat option \<Rightarrow> real \<Rightarrow> real \<Rightarrow> int \<Rightarrow> string \<Rightarrow> real
     \<Rightarrow> error + trade_record list" where
  "log_trade trades ticker entry_date exit_date entry_price exit_price qty side fees =
     (let gross_pnl = (if side = ''LONG'' then (exit_price - entry_price) * of_int qty
                       else (entry_price - exit_price) * of_int qty);
          net_pnl = gross_pnl - fees
      in case (if entry_price > 0
               then (if entry_price * of_int qty = 0 then Inl ZeroDivisionError
                     else Inr (net_pnl / (entry_price * of_int qty)))
               else Inr 0) of
           Inl e \<Rightarrow> Inl e
         | Inr return_pct \<Rightarrow>
             Inr (trades @
               [\<lparr>tr_ticker = ticker, tr_side = side, tr_entry_date = entry_date,
                 tr_exit_date = exit_date, tr_entry_price = entry_price,
                 tr_exit_price = exit_price, tr_quantity = qty, tr_fees = fees,
                 tr_gross_pnl = gross_pnl, tr_net_pnl = net_pnl, tr_return_pct = return_pct\<rparr>]))"

subsection \<open>Order and OrderManager\<close>

text \<open>
  The dataclass \<^verbatim>\<open>Order\<close>. The generated \<^verbatim>\<open>id\<close> is the field \<open>order_id\<close>; the
  constructor function takes it as an argument, since \<^verbatim>\<open>uuid.uuid4()\<close> is an input
  from outside. \<^verbatim>\<open>fill_time\<close> is a timestamp.
\<close>

record order =
  symbol :: string
  quantity :: int
  side :: string
  order_type :: string
  price :: "real option"
  order_id :: string
  status :: string
  fill_price :: real
  fill_time :: "nat option"
  fees :: real

definition Order :: "string \<Rightarrow> int \<Rightarrow> string \<Rightarrow> string \<Rightarrow> real option \<Rightarrow> string \<Rightarrow> order" where
  "Order tkr qty sd ot pr fresh_id =
     \<lparr>symbol = tkr, quantity = qty, side = sd, order_type = ot, price = pr,
      order_id = fresh_id, status = ''OPEN'', fill_price = 0, fill_time = None, fees = 0\<rparr>"

record order_manager =
  open_orders :: "order list"
  filled_orders :: "order list"
  slippage_engine :: slippage_model
  cost_engine :: indian_tax_model

definition OrderManager :: order_manager where
  "OrderManager =
     \<lparr>open_orders = [], filled_orders = [],
      slippage_engine = SlippageModel 5, cost_engine = IndianTaxModel 20\<rparr>"

text \<open>
  \<^verbatim>\<open>place_order(order)\<close> mutates the order it rejects and returns the id: the model
  returns the manager, the order as it is after the call, and the id.
\<close>

definition place_order :: "order_manager \<Rightarrow> order \<Rightarrow> order_manager \<times> order \<times> string" where
  "place_order self ord =
     (if quantity ord \<le> 0
      then (self, ord\<lparr>status := ''REJECTED''\<rparr>, order_id ord)
      else (self\<lparr>open_orders := open_orders self @ [ord]\<rparr>, ord, order_id ord))"

text \<open>One candle of \<^verbatim>\<open>market_data\<close>: the inner dictionary with its four keys, as
  \<^verbatim>\<open>main.py\<close> builds it (so it is never empty, and \<^verbatim>\<open>if not ticker_data\<close> is taken
  for a missing symbol only).\<close>

record bar =
  bar_open :: real
  bar_high :: real
  bar_low :: real
  bar_close :: real

text \<open>
  The body of the loop of \<^verbatim>\<open>process_orders\<close> up to \<^verbatim>\<open>--- EXECUTION ---\<close>: the pair
  \<^verbatim>\<open>(is_fillable, execution_price)\<close> is \<open>Some execution_price\<close> when the order
  fills and \<open>None\<close> when it does not. Comparing a candle price with a \<^verbatim>\<open>price\<close> that
  is \<^verbatim>\<open>None\<close> raises TypeError. In the STOP branch a BUY whose trigger is not
  reached falls to the \<^verbatim>\<open>elif\<close>, whose test on the side is then false.
\<close>

definition fill_decision :: "slippage_model \<Rightarrow> order \<Rightarrow> bar \<Rightarrow> error + real option" where
  "fill_decision slip ord ticker_data =
     (if order_type ord = ''MARKET''
      then Inr (Some (calculate_fill_price slip (bar_close ticker_data) (side ord) None))
      else if order_type ord = ''LIMIT'' \<and> side ord = ''BUY''
      then (case price ord of
              None \<Rightarrow> Inl TypeError
            | Some limit \<Rightarrow>
                if bar_low ticker_data \<le> limit
                then Inr (Some (min limit (bar_open ticker_data)))
                else Inr None)
      else if order_type ord = ''LIMIT'' \<and> side ord = ''SELL''
      then (case price ord of
              None \<Rightarrow> Inl TypeError
            | Some limit \<Rightarrow>
                if bar_high ticker_data \<ge> limit
                then Inr (Some (max limit (bar_open ticker_data)))
                else Inr None)
      else if order_type ord = ''STOP''
      then (if side ord = ''BUY''
            then (case price ord of
                    None \<Rightarrow> Inl TypeError
                  | Some stop \<Rightarrow>
                      if bar_high ticker_data \<ge> stop
                      then Inr (Some (calculate_fill_price slip stop ''BUY'' None))
                      else Inr None)
            else if side ord = ''SELL''
            then (case price ord of
                    None \<Rightarrow> Inl TypeError
                  | Some stop \<Rightarrow>
                      if bar_low ticker_data \<le> stop
                      then Inr (Some (calculate_fill_price slip stop ''SELL'' None))
                      else Inr None)
            else Inr None)
      else Inr None)"

text \<open>
  \<^verbatim>\<open>_execute_fill(order, price)\<close>; the last argument is the reading of
  \<^verbatim>\<open>datetime.now()\<close>. \<^verbatim>\<open>list.remove\<close> takes out the first occurrence and raises
  ValueError when there is none. Orders are values here: two orders are the same
  when all their fields are, as with the \<^verbatim>\<open>__eq__\<close> of the dataclass.
\<close>

definition filled :: "indian_tax_model \<Rightarrow> order \<Rightarrow> real \<Rightarrow> nat \<Rightarrow> order" where
  "filled costs ord p t =
     (let cost_report = calculate costs p (quantity ord) (side ord) ''EQUITY''
      in ord\<lparr>status := ''FILLED'', fill_price := p, fees := total_cost cost_report,
              fill_time := Some t\<rparr>)"

definition execute_fill :: "order_manager \<Rightarrow> order \<Rightarrow> real \<Rightarrow> nat \<Rightarrow> error + order_manager" where
  "execute_fill self ord p t =
     (if ord \<in> set (open_orders self)
      then Inr (self\<lparr>open_orders := remove1 ord (open_orders self),
                       filled_orders := filled_orders self @ [filled (cost_engine self) ord p t]\<rparr>)
      else Inl ValueError)"

text \<open>
  \<^verbatim>\<open>process_orders(market_data)\<close>: the loop runs over a copy of the open orders,
  \<open>process_loop\<close> over that copy. \<open>now i\<close> is the clock as read while the \<open>i\<close>-th
  order of the copy is filled.
\<close>

fun process_loop ::
  "(nat \<Rightarrow> nat) \<Rightarrow> (string \<rightharpoonup> bar) \<Rightarrow> nat \<Rightarrow> order list \<Rightarrow> order_manager \<Rightarrow> error + order_manager" where
  "process_loop now market_data i [] self = Inr self"
| "process_loop now market_data i (ord # rest) self =
     (case market_data (symbol ord) of
        None \<Rightarrow> process_loop now market_data (Suc i) rest self
      | Some ticker_data \<Rightarrow>
         (case fill_decision (slippage_engine self) ord ticker_data of
            Inl e \<Rightarrow> Inl e
          | Inr None \<Rightarrow> process_loop now market_data (Suc i) rest self
          | Inr (Some execution_price) \<Rightarrow>
             (case execute_fill self ord execution_price (now i) of
                Inl e \<Rightarrow> Inl e
              | Inr self' \<Rightarrow> process_loop now market_data (Suc i) rest self')))"

definition process_orders :: "(nat \<Rightarrow> nat) \<Rightarrow> (string \<rightharpoonup> bar) \<Rightarrow> order_manager \<Rightarrow> error + order_manager" where
  "process_orders now market_data self = process_loop now market_data 0 (open_orders self) self"

text \<open>The states of the order manager that its two operations reach from the
  constructor.\<close>

inductive reachable :: "order_manager \<Rightarrow> bool" where
  init: "reachable OrderManager"
| place: "reachable om \<Longrightarrow> reachable (fst (place_order om ord))"
| process: "reachable om \<Longrightarrow> process_orders now market_data om = Inr om' \<Longrightarrow> reachable om'"

text \<open>The test of the loop body as a predicate: the order has a candle and its
  decision is to fill. It is used to state what \<^verbatim>\<open>process_orders\<close> does.\<close>

definition fills :: "slippage_model \<Rightarrow> (string \<rightharpoonup> bar) \<Rightarrow> order \<Rightarrow> bool" where
  "fills slip market_data ord =
     (case market_data (symbol ord) of
        None \<Rightarrow> False
      | Some ticker_data \<Rightarrow>
          (case fill_decision slip ord ticker_data of
             Inr (Some execution_price) \<Rightarrow> True
           | _ \<Rightarrow> False))"

subsection \<open>BacktestEngine\<close>

text \<open>One row of \<^verbatim>\<open>backtest_df\<close>: the candle joined with the signal of the strategy
  (the column \<^verbatim>\<open>adx\<close> is not read by the loop).\<close>

record row =
  row_open :: real
  row_high :: real
  row_low :: real
  row_close :: real
  signal :: int

text \<open>
  The attributes of \<^verbatim>\<open>BacktestEngine\<close>. \<^verbatim>\<open>last_entry_price\<close> and
  \<^verbatim>\<open>last_entry_date\<close> are not set by \<^verbatim>\<open>__init__\<close>: \<open>None\<close> is the attribute that
  does not exist yet, and reading it raises AttributeError. The data pipeline and the
  strategy stay outside; the loop sees their output as rows.
\<close>

record engine =
  ticker :: string
  cash :: real
  equity :: real
  holdings :: int
  portfolio_history :: "(nat \<times> real) list"
  compliance :: risk_compliance
  sizer :: position_sizer
  oms :: order_manager
  ledger :: "trade_record list"
  last_entry_price :: "real option"
  last_entry_date :: "nat option option"

definition BacktestEngine :: "string \<Rightarrow> real \<Rightarrow> engine" where
  "BacktestEngine tkr initial_capital =
     \<lparr>ticker = tkr, cash = initial_capital, equity = 0, holdings = 0, portfolio_history = [],
      compliance = RiskCompliance \<lparr>max_drawdown_limit = Some 0.20, max_sector_exposure = Some 1.0,
                                    max_positions = None\<rparr>,
      sizer = PositionSizer 0.20, oms = OrderManager, ledger = [],
      last_entry_price = None, last_entry_date = None\<rparr>"

text \<open>\<^verbatim>\<open>_handle_fill(order)\<close>.\<close>

definition handle_fill :: "engine \<Rightarrow> order \<Rightarrow> error + engine" where
  "handle_fill self ord =
     (let cost = of_int (quantity ord) * fill_price ord
      in if side ord = ''BUY''
         then Inr (self\<lparr>cash := cash self - (cost + fees ord),
                          holdings := holdings self + quantity ord,
                          last_entry_price := Some (fill_price ord),
                          last_entry_date := Some (fill_time ord)\<rparr>)
         else if side ord = ''SELL''
         then (case last_entry_date self of
                 None \<Rightarrow> Inl AttributeError
               | Some entry_date \<Rightarrow>
                  (case last_entry_price self of
                     None \<Rightarrow> Inl AttributeError
                   | Some entry_price \<Rightarrow>
                      (case log_trade (ledger self) (ticker self) entry_date (fill_time ord)
                              entry_price (fill_price ord) (quantity ord) ''LONG'' (fees ord) of
                         Inl e \<Rightarrow> Inl e
                       | Inr trades \<Rightarrow>
                           Inr (self\<lparr>cash := cash self + (cost - fees ord),
                                      holdings := holdings self - quantity ord,
                                      ledger := trades\<rparr>))))
         else Inr self)"

text \<open>The loop \<^verbatim>\<open>while self.oms.filled_orders: ... pop(0) ... _handle_fill\<close>.\<close>

function drain_filled :: "engine \<Rightarrow> error + engine" where
  "drain_filled self =
     (case filled_orders (oms self) of
        [] \<Rightarrow> Inr self
      | filled_order # rest \<Rightarrow>
         (case handle_fill (self\<lparr>oms := (oms self)\<lparr>filled_orders := rest\<rparr>\<rparr>) filled_order of
            Inl e \<Rightarrow> Inl e
          | Inr self' \<Rightarrow> drain_filled self'))"
  by pat_completeness auto
termination
proof (relation "measure (\<lambda>self. length (filled_orders (oms self)))")
  show "wf (measure (\<lambda>self. length (filled_orders (oms self))))" by simp
next
  fix self :: engine and filled_order rest x
  assume q: "filled_orders (oms self) = filled_order # rest"
    and h: "handle_fill (self\<lparr>oms := (oms self)\<lparr>filled_orders := rest\<rparr>\<rparr>) filled_order = Inr x"
  from h have "oms x = (oms self)\<lparr>filled_orders := rest\<rparr>"
    by (auto simp: handle_fill_def Let_def split: if_splits option.splits sum.splits)
  with q show "(x, self) \<in> measure (\<lambda>self. length (filled_orders (oms self)))"
    by simp
qed

text \<open>
  \<^verbatim>\<open>_place_entry_order(price, row_data, side)\<close>, with the id of the order it may
  create. Neither \<^verbatim>\<open>row_data\<close> nor \<^verbatim>\<open>side\<close> is read.
\<close>

definition place_entry_order :: "engine \<Rightarrow> real \<Rightarrow> string \<Rightarrow> error + engine" where
  "place_entry_order self p fresh_id =
     (let vol = 0.015
      in case calculate_quantity (sizer self) (equity self) p vol of
           Inl e \<Rightarrow> Inl e
         | Inr target_qty \<Rightarrow>
            (let portfolio_state =
                   \<lparr>positions = Some (if holdings self > 0 then [(''dummy'', 1)] else []),
                    current_drawdown = Some 0,
                    sector_allocation = None,
                    total_equity = Some (equity self)\<rparr>;
                 trade_proposal =
                   \<lparr>trade_side = Some ''ENTRY'', sector = Some ''Tech'',
                    capital_impact = Some (of_int target_qty * p)\<rparr>
             in case check_trade_permission (compliance self) portfolio_state trade_proposal of
                  Inl e \<Rightarrow> Inl e
                | Inr check \<Rightarrow>
                    if allowed check \<and> target_qty > 0
                    then Inr (self\<lparr>oms := fst (place_order (oms self)
                                 (Order (ticker self) target_qty ''BUY'' ''MARKET'' None fresh_id))\<rparr>)
                    else Inr self))"

text \<open>\<^verbatim>\<open>_place_exit_order(price, side)\<close>; neither argument is read.\<close>

definition place_exit_order :: "engine \<Rightarrow> string \<Rightarrow> engine" where
  "place_exit_order self fresh_id =
     self\<lparr>oms := fst (place_order (oms self)
              (Order (ticker self) (holdings self) ''SELL'' ''MARKET'' None fresh_id))\<rparr>"

text \<open>
  What one iteration of the loop of \<^verbatim>\<open>run\<close> takes from outside: the index of the
  row (its date), the row, the clock that \<^verbatim>\<open>process_orders\<close> reads, and the id of
  the order that the iteration may create.
\<close>

record tick =
  date :: nat
  row :: row
  now :: "nat \<Rightarrow> nat"
  fresh_id :: string

text \<open>The dictionary \<^verbatim>\<open>market_snapshot\<close> of one iteration: the candle of the row
  under the ticker of the engine.\<close>

definition market_snapshot :: "engine \<Rightarrow> tick \<Rightarrow> (string \<rightharpoonup> bar)" where
  "market_snapshot self tk =
     [ticker self \<mapsto> \<lparr>bar_open = row_open (row tk), bar_high = row_high (row tk),
                        bar_low = row_low (row tk), bar_close = row_close (row tk)\<rparr>]"

text \<open>Parts A (market simulation and the queue of fills) and B (mark-to-market) of
  the loop body.\<close>

definition settle :: "engine \<Rightarrow> tick \<Rightarrow> error + engine" where
  "settle self tk =
     (let current_price = row_close (row tk)
      in case process_orders (now tk) (market_snapshot self tk) (oms self) of
           Inl e \<Rightarrow> Inl e
         | Inr oms' \<Rightarrow>
            (case drain_filled (self\<lparr>oms := oms'\<rparr>) of
               Inl e \<Rightarrow> Inl e
             | Inr self' \<Rightarrow>
                 (let eq = cash self' + of_int (holdings self') * current_price
                  in Inr (self'\<lparr>equity := eq,
                                  portfolio_history := portfolio_history self' @ [(date tk, eq)]\<rparr>))))"

text \<open>Part C (trading logic) of the loop body.\<close>

definition trading_logic :: "engine \<Rightarrow> tick \<Rightarrow> error + engine" where
  "trading_logic self tk =
     (if open_orders (oms self) = []
      then (if signal (row tk) = 1 \<and> holdings self = 0
            then place_entry_order self (row_close (row tk)) (fresh_id tk)
            else if signal (row tk) = - 1 \<and> holdings self = 0
            then Inr self
            else if holdings self > 0
            then (if signal (row tk) = - 1
                  then Inr (place_exit_order self (fresh_id tk))
                  else Inr self)
            else Inr self)
      else Inr self)"

text \<open>One iteration of the loop of \<^verbatim>\<open>run\<close>, and the loop over the rows.\<close>

definition run_step :: "engine \<Rightarrow> tick \<Rightarrow> error + engine" where
  "run_step self tk =
     (case settle self tk of
        Inl e \<Rightarrow> Inl e
      | Inr self' \<Rightarrow> trading_logic self' tk)"

fun run_loop :: "engine \<Rightarrow> tick list \<Rightarrow> error + engine" where
  "run_loop self [] = Inr self"
| "run_loop self (tk # tks) =
     (case run_step self tk of
        Inl e \<Rightarrow> Inl e
      | Inr self' \<Rightarrow> run_loop self' tks)"

subsection \<open>A run of two bars\<close>

text \<open>
  A concrete run of the loop. The engine starts with one open market BUY of 10 shares,
  as an entry signal on the bar before leaves it. On the first bar (close 100, signal
  \<open>-1\<close>) the BUY fills at 100.05 and the loop places the market SELL of the holding;
  on the second bar (close 110) the SELL fills at 109.945 and the trade is logged.
  \<open>example_engine_1\<close> and \<open>example_engine_2\<close> are the states after the first and
  the second bar, \<open>example_trade\<close> the record that the second bar logs.
\<close>

definition example_engine :: engine where
  "example_engine =
     (BacktestEngine ''RELIANCE'' 1000000)
       \<lparr>oms := fst (place_order OrderManager
                      (Order ''RELIANCE'' 10 ''BUY'' ''MARKET'' None ''a1b2c3d4''))\<rparr>"

definition example_tick_1 :: tick where
  "example_tick_1 =
     \<lparr>date = 1,
      row = \<lparr>row_open = 99, row_high = 101, row_low = 98, row_close = 100, signal = - 1\<rparr>,
      now = (\<lambda>i. 1), fresh_id = ''e5f6a7b8''\<rparr>"

definition example_tick_2 :: tick where
  "example_tick_2 =
     \<lparr>date = 2,
      row = \<lparr>row_open = 108, row_high = 111, row_low = 107, row_close = 110, signal = 0\<rparr>,
      now = (\<lambda>i. 2), fresh_id = ''0c1d2e3f''\<rparr>"

definition example_buy_fees :: real where
  "example_buy_fees = total_cost (calculate (IndianTaxModel 20) 100.05 10 ''BUY'' ''EQUITY'')"

definition example_sell_fees :: real where
  "example_sell_fees = total_cost (calculate (IndianTaxModel 20) 109.945 10 ''SELL'' ''EQUITY'')"

definition example_engine_1 :: engine where
  "example_engine_1 =
     (BacktestEngine ''RELIANCE'' 1000000)
       \<lparr>cash := 1000000 - (1000.5 + example_buy_fees),
        equity := 1000000 - (1000.5 + example_buy_fees) + 1000,
        holdings := 10,
        portfolio_history := [(1, 1000000 - (1000.5 + example_buy_fees) + 1000)],
        oms := OrderManager\<lparr>open_orders :=
                 [Order ''RELIANCE'' 10 ''SELL'' ''MARKET'' None ''e5f6a7b8'']\<rparr>,
        last_entry_price := Some 100.05,
        last_entry_date := Some (Some 1)\<rparr>"

definition example_trade :: trade_record where
  "example_trade =
     \<lparr>tr_ticker = ''RELIANCE'', tr_side = ''LONG'', tr_entry_date = Some 1,
      tr_exit_date = Some 2, tr_entry_price = 100.05, tr_exit_price = 109.945,
      tr_quantity = 10, tr_fees = example_sell_fees, tr_gross_pnl = 98.95,
      tr_net_pnl = 98.95 - example_sell_fees,
      tr_return_pct = (98.95 - example_sell_fees) / 1000.5\<rparr>"

definition example_engine_2 :: engine where
  "example_engine_2 =
     (BacktestEngine ''RELIANCE'' 1000000)
       \<lparr>cash := 1000000 - (1000.5 + example_buy_fees) + (1099.45 - example_sell_fees),
        equity := 1000000 - (1000.5 + example_buy_fees) + (1099.45 - example_sell_fees),
        holdings := 0,
        portfolio_history := [(1, 1000000 - (1000.5 + example_buy_fees) + 1000),
           (2, 1000000 - (1000.5 + example_buy_fees) + (1099.45 - example_sell_fees))],
        oms := OrderManager,
        ledger := [example_trade],
        last_entry_price := Some 100.05,
        last_entry_date := Some (Some 1)\<rparr>"

section \<open>Properties\<close>

subsection \<open>Slippage\<close>

lemma impact_nonneg:
  assumes "0 \<le> base_bps"
  shows "0 \<le> (case volatility of None \<Rightarrow> base_bps / 10000
               | Some v \<Rightarrow> if v \<noteq> 0 \<and> v > 0.01 then base_bps / 10000 * 2 else base_bps / (10000::real))"
  using assms by (cases volatility) auto

text \<open>
  C7. For every target price \<open>p > 0\<close>, every \<open>base_bps \<ge> 0\<close> and every optional
  volatility, a BUY fills at or above \<open>p\<close> and a SELL fills at or below \<open>p\<close>:
  slippage never improves the fill.
\<close>

theorem slippage_never_improves:
  assumes "0 < p" and "0 \<le> base_bps"
  shows "calculate_fill_price (SlippageModel base_bps) p ''BUY'' volatility \<ge> p
       \<and> calculate_fill_price (SlippageModel base_bps) p ''SELL'' volatility \<le> p"
proof -
  define i where "i = (case volatility of None \<Rightarrow> base_bps / 10000
               | Some v \<Rightarrow> if v \<noteq> 0 \<and> v > 0.01 then base_bps / 10000 * 2 else base_bps / (10000::real))"
  have i0: "0 \<le> i"
    unfolding i_def using impact_nonneg [OF assms(2)] .
  have buy: "calculate_fill_price (SlippageModel base_bps) p ''BUY'' volatility = p * (1 + i)"
    by (simp add: calculate_fill_price_def SlippageModel_def i_def Let_def)
  have sell: "calculate_fill_price (SlippageModel base_bps) p ''SELL'' volatility = p * (1 - i)"
    by (simp add: calculate_fill_price_def SlippageModel_def i_def Let_def)
  have "0 \<le> p * i"
    using assms(1) i0 by simp
  then have "p \<le> p * (1 + i)" and "p * (1 - i) \<le> p"
    by (simp_all add: algebra_simps)
  with buy sell show ?thesis by simp
qed

theorem slippage_never_improves_witness:
  "(0::real) < 100 \<and> (0::real) \<le> 5
   \<and> calculate_fill_price (SlippageModel 5) 100 ''BUY'' (Some 0.02) \<ge> 100
   \<and> calculate_fill_price (SlippageModel 5) 100 ''SELL'' (Some 0.02) \<le> 100"
  using slippage_never_improves [of 100 5 "Some 0.02"] by simp

subsection \<open>Cost model\<close>

text \<open>
  C4. For every price, quantity, side and asset class, with turnover \<open>t\<close> the price
  times the quantity and a flat cap on the brokerage: the brokerage is
  \<open>min (t \<times> 0.0003) cap\<close>; the transaction tax is \<open>t \<times> 0.001\<close> for EQUITY on both
  sides, \<open>t \<times> 0.00025\<close> for an INTRADAY SELL and nothing for an INTRADAY BUY; the
  exchange fee is \<open>t \<times> 0.0000345\<close>; the stamp duty is \<open>t \<times> 0.00015\<close> on a BUY and
  nothing on a SELL; the regulatory fee \<open>t \<times> 0.000001\<close> enters the base of the
  consumption tax and the total; the consumption tax is 0.18 of brokerage, exchange
  fee and regulatory fee; the total is the sum of the six components. With cap 20 and
  turnover 100,000 on an EQUITY BUY the components are 20, 100, 15, 3.45 and 4.239, and
  the total is 142.789, within half a cent of 142.79.
\<close>

theorem cost_model_components:
  fixes flat_cap p :: real and qty :: int and sd asset :: string
  defines "t \<equiv> p * of_int qty"
  defines "c \<equiv> calculate (IndianTaxModel flat_cap) p qty sd asset"
  shows "Turnover (breakdown c) = t
       \<and> Brokerage (breakdown c) = min (t * 0.0003) flat_cap
       \<and> (asset = ''EQUITY'' \<longrightarrow> STT (breakdown c) = t * 0.001)
       \<and> (asset = ''INTRADAY'' \<and> sd = ''SELL'' \<longrightarrow> STT (breakdown c) = t * 0.00025)
       \<and> (asset = ''INTRADAY'' \<and> sd = ''BUY'' \<longrightarrow> STT (breakdown c) = 0)
       \<and> Exchange_Charges (breakdown c) = t * 0.0000345
       \<and> (sd = ''BUY'' \<longrightarrow> Stamp_Duty (breakdown c) = t * 0.00015)
       \<and> (sd = ''SELL'' \<longrightarrow> Stamp_Duty (breakdown c) = 0)
       \<and> GST (breakdown c)
            = 0.18 * (Brokerage (breakdown c) + Exchange_Charges (breakdown c) + t * 0.000001)
       \<and> total_cost c
            = Brokerage (breakdown c) + STT (breakdown c) + Exchange_Charges (breakdown c)
              + t * 0.000001 + Stamp_Duty (breakdown c) + GST (breakdown c)
       \<and> Total_Charges (breakdown c) = total_cost c
       \<and> (flat_cap = 20 \<and> t = 100000 \<and> sd = ''BUY'' \<and> asset = ''EQUITY'' \<longrightarrow>
            Brokerage (breakdown c) = 20 \<and> STT (breakdown c) = 100
            \<and> Stamp_Duty (breakdown c) = 15 \<and> Exchange_Charges (breakdown c) = 3.45
            \<and> GST (breakdown c) = 4.239 \<and> total_cost c = 142.789
            \<and> \<bar>total_cost c - 142.79\<bar> \<le> 0.005)"
  unfolding t_def c_def
  by (simp add: calculate_def IndianTaxModel_def Let_def)

theorem cost_model_components_witness:
  "(20::real) = 20 \<and> (100::real) * of_int 1000 = 100000
   \<and> total_cost (calculate (IndianTaxModel 20) 100 1000 ''BUY'' ''EQUITY'') = 142.789
   \<and> STT (breakdown (calculate (IndianTaxModel 20) 100 1000 ''BUY'' ''EQUITY'')) = 100
   \<and> Stamp_Duty (breakdown (calculate (IndianTaxModel 20) 100 1000 ''BUY'' ''EQUITY'')) = 15
   \<and> \<bar>total_cost (calculate (IndianTaxModel 20) 100 1000 ''BUY'' ''EQUITY'') - 142.79\<bar> \<le> 0.005"
  using cost_model_components [of 20 100 1000 "''BUY''" "''EQUITY''"] by simp

subsection \<open>Position sizer\<close>

text \<open>The square root of 252 lies between 4000/252 and 4000/251, which places
  \<open>4000 / sqrt 252\<close> between 251 and 252.\<close>

lemma sqrt252_lower: "4000 / 252 < sqrt (252::real)"
  by (rule real_less_rsqrt) (simp add: power2_eq_square)

lemma sqrt252_upper: "sqrt (252::real) < 4000 / 251"
  by (rule real_less_lsqrt) (simp_all add: power2_eq_square)

lemma scenario_3_quantity: "calculate_quantity (PositionSizer 0.20) 1000000 2500 0.02 = Inr 251"
proof -
  have pos: "0 < sqrt (252::real)" by simp
  have gt10: "10 < sqrt (252::real)" using sqrt252_lower by simp
  have sc: "vol_scalar (PositionSizer 0.20) 0.02 = 10 / sqrt 252"
    using gt10 pos by (simp add: vol_scalar_def PositionSizer_def Let_def min_def field_simps)
  have lo: "(251::real) \<le> 4000 / sqrt 252"
    using sqrt252_upper pos by (simp add: field_simps)
  have hi: "4000 / sqrt 252 < (252::real)"
    using sqrt252_lower pos by (simp add: field_simps)
  have fl: "\<lfloor>4000 / sqrt (252::real)\<rfloor> = 251"
    using lo hi by (simp add: floor_eq_iff)
  have "calculate_quantity (PositionSizer 0.20) 1000000 2500 0.02
        = Inr \<lfloor>1000000 * vol_scalar (PositionSizer 0.20) 0.02 / 2500\<rfloor>"
    by (simp add: calculate_quantity_def Let_def)
  also have "1000000 * vol_scalar (PositionSizer 0.20) 0.02 / 2500 = 4000 / sqrt 252"
    unfolding sc by simp
  finally show ?thesis
    unfolding fl .
qed

text \<open>
  C6, as the specification states its scenario: the quantity for capital 1,000,000,
  price 2500, daily volatility 0.02 and annual target 0.20 would be 252. It is not:
  the scalar is \<open>10 / sqrt 252\<close>, about 0.62994 and not 0.63, so the allocation is
  about 629,941 and the floor of the quotient by 2500 is 251.
\<close>

theorem sizer_scenario_not_252:
  "calculate_quantity (PositionSizer 0.20) 1000000 2500 0.02 \<noteq> Inr 252"
  unfolding scenario_3_quantity by simp

text \<open>
  C6, amended. For every capital, positive price and positive daily volatility the
  quantity is \<open>floor (capital \<times> min ((target / sqrt 252) / daily_volatility) 1 / price)\<close>,
  the volatility scalar never exceeds 1, and in the scenario above the quantity is 251.
\<close>

theorem position_sizer_quantity:
  assumes "0 < p" and "0 < daily_volatility"
  shows "calculate_quantity (PositionSizer target_annual) capital p daily_volatility
           = Inr \<lfloor>capital * min ((target_annual / sqrt 252) / daily_volatility) 1 / p\<rfloor>
       \<and> vol_scalar (PositionSizer target_annual) daily_volatility \<le> 1
       \<and> calculate_quantity (PositionSizer 0.20) 1000000 2500 0.02 = Inr 251"
  using assms scenario_3_quantity
  by (simp add: calculate_quantity_def vol_scalar_def PositionSizer_def Let_def)

theorem position_sizer_quantity_witness:
  "(0::real) < 2500 \<and> (0::real) < 0.02
   \<and> calculate_quantity (PositionSizer 0.20) 1000000 2500 0.02
        = Inr \<lfloor>1000000 * min ((0.20 / sqrt 252) / 0.02) 1 / 2500\<rfloor>
   \<and> vol_scalar (PositionSizer 0.20) 0.02 \<le> 1"
  using position_sizer_quantity [of 2500 "0.02" "0.20" 1000000] by simp

subsection \<open>Trade ledger\<close>

text \<open>
  C9. A trade logged with entry price 0 is recorded, with return percentage 0: the
  call appends the record and does not divide by the entry price.
\<close>

theorem zero_entry_price_return:
  "log_trade trades tkr entry_date exit_date 0 exit_price qty sd fs
     = Inr (trades @
         [\<lparr>tr_ticker = tkr, tr_side = sd, tr_entry_date = entry_date, tr_exit_date = exit_date,
           tr_entry_price = 0, tr_exit_price = exit_price, tr_quantity = qty, tr_fees = fs,
           tr_gross_pnl = (if sd = ''LONG'' then exit_price * of_int qty else - exit_price * of_int qty),
           tr_net_pnl = (if sd = ''LONG'' then exit_price * of_int qty else - exit_price * of_int qty) - fs,
           tr_return_pct = 0\<rparr>])"
  by (simp add: log_trade_def Let_def)

subsection \<open>Compliance gate\<close>

text \<open>
  C5. The checks run in the order position limit, drawdown, sector exposure, and the
  first that fails decides. When the count of active positions has reached
  \<open>max_pos\<close> and the trade is an ENTRY, the trade is rejected with the reason that names
  the position limit, whatever the drawdown and the sector data are. When the position
  check passes and the drawdown exceeds the limit, the trade is rejected for the
  drawdown, whatever the sector data are. When both pass and the trade names a sector,
  it is rejected for the sector exactly when the new exposure exceeds the limit.
\<close>

theorem compliance_check_order:
  fixes rc :: risk_compliance and pf :: portfolio and tr :: trade
  defines "passes_positions \<equiv>
             int (active_positions pf) < max_pos rc \<or> (\<exists>sd. trade_side tr = Some sd \<and> sd \<noteq> ''ENTRY'')"
  defines "new_exposure \<equiv> \<lambda>s. current_sector_alloc pf s + trade_impact tr / total_capital pf"
  shows "(int (active_positions pf) \<ge> max_pos rc \<and> trade_side tr = Some ''ENTRY'' \<longrightarrow>
            check_trade_permission rc pf tr
              = Inr \<lparr>allowed = False,
                     reason = Max_positions_reached (active_positions pf) (max_pos rc)\<rparr>)
       \<and> (passes_positions \<and> current_dd pf > max_dd rc \<longrightarrow>
            check_trade_permission rc pf tr
              = Inr \<lparr>allowed = False, reason = Critical_drawdown (current_dd pf) (max_dd rc)\<rparr>)
       \<and> (passes_positions \<and> current_dd pf \<le> max_dd rc \<and> sector tr = Some s \<and> s \<noteq> []
            \<and> total_capital pf \<noteq> 0 \<and> new_exposure s > max_sector rc \<longrightarrow>
            check_trade_permission rc pf tr
              = Inr \<lparr>allowed = False,
                     reason = Sector_limit_exceeded s (new_exposure s) (max_sector rc)\<rparr>)
       \<and> (passes_positions \<and> current_dd pf \<le> max_dd rc \<and> sector tr = Some s \<and> s \<noteq> []
            \<and> total_capital pf \<noteq> 0 \<and> new_exposure s \<le> max_sector rc \<longrightarrow>
            check_trade_permission rc pf tr = Inr \<lparr>allowed = True, reason = Checks_passed\<rparr>)"
  unfolding passes_positions_def new_exposure_def
  by (auto simp: check_trade_permission_def Let_def)

theorem compliance_check_order_witness:
  "int (active_positions \<lparr>positions = Some [(''a'', 1), (''b'', 1), (''c'', 1), (''d'', 1), (''e'', 1),
                    (''f'', 1), (''g'', 1), (''h'', 1), (''i'', 1), (''j'', 1)], current_drawdown = Some 0.5,
                            sector_allocation = None, total_equity = Some 1000\<rparr>)
     \<ge> max_pos (RiskCompliance \<lparr>max_drawdown_limit = None, max_sector_exposure = None, max_positions = Some 10\<rparr>)
   \<and> check_trade_permission
        (RiskCompliance \<lparr>max_drawdown_limit = None, max_sector_exposure = None, max_positions = Some 10\<rparr>)
        \<lparr>positions = Some [(''a'', 1), (''b'', 1), (''c'', 1), (''d'', 1), (''e'', 1),
                    (''f'', 1), (''g'', 1), (''h'', 1), (''i'', 1), (''j'', 1)], current_drawdown = Some 0.5,
          sector_allocation = None, total_equity = Some 1000\<rparr>
        \<lparr>trade_side = Some ''ENTRY'', sector = Some ''Tech'', capital_impact = Some 900\<rparr>
      = Inr \<lparr>allowed = False, reason = Max_positions_reached 10 10\<rparr>
   \<and> check_trade_permission
        (RiskCompliance \<lparr>max_drawdown_limit = None, max_sector_exposure = None, max_positions = Some 10\<rparr>)
        \<lparr>positions = Some [], current_drawdown = Some 0.5,
          sector_allocation = None, total_equity = Some 1000\<rparr>
        \<lparr>trade_side = Some ''ENTRY'', sector = Some ''Tech'', capital_impact = Some 900\<rparr>
      = Inr \<lparr>allowed = False, reason = Critical_drawdown 0.5 0.15\<rparr>
   \<and> check_trade_permission
        (RiskCompliance \<lparr>max_drawdown_limit = None, max_sector_exposure = None, max_positions = Some 10\<rparr>)
        \<lparr>positions = Some [], current_drawdown = Some 0,
          sector_allocation = None, total_equity = Some 1000\<rparr>
        \<lparr>trade_side = Some ''ENTRY'', sector = Some ''Tech'', capital_impact = Some 900\<rparr>
      = Inr \<lparr>allowed = False, reason = Sector_limit_exceeded ''Tech'' 0.9 0.3\<rparr>
   \<and> check_trade_permission
        (RiskCompliance \<lparr>max_drawdown_limit = None, max_sector_exposure = None, max_positions = Some 10\<rparr>)
        \<lparr>positions = Some [], current_drawdown = Some 0,
          sector_allocation = None, total_equity = Some 1000\<rparr>
        \<lparr>trade_side = Some ''ENTRY'', sector = Some ''Tech'', capital_impact = Some 100\<rparr>
      = Inr \<lparr>allowed = True, reason = Checks_passed\<rparr>"
  using
    compliance_check_order [where pf = "\<lparr>positions = Some [(''a'', 1), (''b'', 1), (''c'', 1), (''d'', 1), (''e'', 1),
                    (''f'', 1), (''g'', 1), (''h'', 1), (''i'', 1), (''j'', 1)], current_drawdown = Some 0.5,
          sector_allocation = None, total_equity = Some 1000\<rparr>" and rc = "RiskCompliance \<lparr>max_drawdown_limit = None, max_sector_exposure = None, max_positions = Some 10\<rparr>" and tr = "\<lparr>trade_side = Some ''ENTRY'', sector = Some ''Tech'', capital_impact = Some 900\<rparr>" and s = "''Tech''"]
    compliance_check_order [where pf = "\<lparr>positions = Some [], current_drawdown = Some 0.5,
          sector_allocation = None, total_equity = Some 1000\<rparr>" and rc = "RiskCompliance \<lparr>max_drawdown_limit = None, max_sector_exposure = None, max_positions = Some 10\<rparr>" and tr = "\<lparr>trade_side = Some ''ENTRY'', sector = Some ''Tech'', capital_impact = Some 900\<rparr>" and s = "''Tech''"]
    compliance_check_order [where pf = "\<lparr>positions = Some [], current_drawdown = Some 0,
          sector_allocation = None, total_equity = Some 1000\<rparr>" and rc = "RiskCompliance \<lparr>max_drawdown_limit = None, max_sector_exposure = None, max_positions = Some 10\<rparr>" and tr = "\<lparr>trade_side = Some ''ENTRY'', sector = Some ''Tech'', capital_impact = Some 900\<rparr>" and s = "''Tech''"]
    compliance_check_order [where pf = "\<lparr>positions = Some [], current_drawdown = Some 0,
          sector_allocation = None, total_equity = Some 1000\<rparr>" and rc = "RiskCompliance \<lparr>max_drawdown_limit = None, max_sector_exposure = None, max_positions = Some 10\<rparr>" and tr = "\<lparr>trade_side = Some ''ENTRY'', sector = Some ''Tech'', capital_impact = Some 100\<rparr>" and s = "''Tech''"]
  by (simp add: active_positions_def current_dd_def current_sector_alloc_def trade_impact_def
        total_capital_def RiskCompliance_def)

text \<open>
  C10. A trade whose sector is absent or the empty string skips the sector check: it
  is allowed whenever the position check and the drawdown check pass, whatever its
  capital impact, the sector allocations and the total equity are.
\<close>

theorem sector_check_skipped:
  assumes "sector tr = None \<or> sector tr = Some []"
    and "int (active_positions pf) < max_pos rc \<or> (\<exists>sd. trade_side tr = Some sd \<and> sd \<noteq> ''ENTRY'')"
    and "current_dd pf \<le> max_dd rc"
  shows "check_trade_permission rc pf tr = Inr \<lparr>allowed = True, reason = Checks_passed\<rparr>"
  using assms by (auto simp: check_trade_permission_def)

theorem sector_check_skipped_witness:
  "check_trade_permission
     (RiskCompliance \<lparr>max_drawdown_limit = None, max_sector_exposure = None, max_positions = None\<rparr>)
     \<lparr>positions = Some [(''a'', 1)], current_drawdown = Some 0.1,
       sector_allocation = Some [''Tech'' \<mapsto> 5], total_equity = Some 0\<rparr>
     \<lparr>trade_side = Some ''ENTRY'', sector = None, capital_impact = Some 1000000\<rparr>
   = Inr \<lparr>allowed = True, reason = Checks_passed\<rparr>
   \<and> check_trade_permission
     (RiskCompliance \<lparr>max_drawdown_limit = None, max_sector_exposure = None, max_positions = None\<rparr>)
     \<lparr>positions = Some [(''a'', 1)], current_drawdown = Some 0.1,
       sector_allocation = Some [''Tech'' \<mapsto> 5], total_equity = Some 0\<rparr>
     \<lparr>trade_side = Some ''ENTRY'', sector = Some [], capital_impact = Some 1000000\<rparr>
   = Inr \<lparr>allowed = True, reason = Checks_passed\<rparr>"
  using
    sector_check_skipped [where tr = "\<lparr>trade_side = Some ''ENTRY'', sector = None, capital_impact = Some 1000000\<rparr>" and pf = "\<lparr>positions = Some [(''a'', 1)], current_drawdown = Some 0.1,
        sector_allocation = Some [''Tech'' \<mapsto> 5], total_equity = Some 0\<rparr>" and rc = "RiskCompliance \<lparr>max_drawdown_limit = None, max_sector_exposure = None, max_positions = None\<rparr>"]
    sector_check_skipped [where tr = "\<lparr>trade_side = Some ''ENTRY'', sector = Some [], capital_impact = Some 1000000\<rparr>" and pf = "\<lparr>positions = Some [(''a'', 1)], current_drawdown = Some 0.1,
        sector_allocation = Some [''Tech'' \<mapsto> 5], total_equity = Some 0\<rparr>" and rc = "RiskCompliance \<lparr>max_drawdown_limit = None, max_sector_exposure = None, max_positions = None\<rparr>"]
  by (simp add: active_positions_def current_dd_def RiskCompliance_def)

subsection \<open>Order manager\<close>

text \<open>
  What \<^verbatim>\<open>process_orders\<close> does to the two lists. An order that fills is taken out
  of the open list where it stands, so the open list after the call is the open list
  before it without the orders that fill on the candle; the filled list only grows, and
  what it gains are the fills of the open orders.
\<close>

lemma execute_fill_engines:
  "execute_fill om ord p t = Inr om' \<Longrightarrow>
     slippage_engine om' = slippage_engine om \<and> cost_engine om' = cost_engine om"
  by (auto simp: execute_fill_def split: if_splits)

lemma execute_fill_head:
  assumes "open_orders om = pre @ ord # rest" and "ord \<notin> set pre"
  shows "execute_fill om ord p t
           = Inr (om\<lparr>open_orders := pre @ rest,
                      filled_orders := filled_orders om @ [filled (cost_engine om) ord p t]\<rparr>)"
  using assms by (simp add: execute_fill_def remove1_append)

lemma process_loop_open:
  assumes "process_loop clk md i snap om = Inr om'"
    and "open_orders om = pre @ snap"
    and "\<forall>x \<in> set pre. \<not> fills (slippage_engine om) md x"
  shows "open_orders om' = pre @ filter (\<lambda>x. \<not> fills (slippage_engine om) md x) snap
       \<and> slippage_engine om' = slippage_engine om \<and> cost_engine om' = cost_engine om"
  using assms
proof (induction snap arbitrary: i om pre)
  case Nil
  then show ?case by simp
next
  case (Cons ord rest)
  show ?case
  proof (cases "fills (slippage_engine om) md ord")
    case False
    then have step: "process_loop clk md (Suc i) rest om = Inr om'"
      using Cons.prems(1)
      by (auto simp: fills_def split: option.splits sum.splits)
    have "open_orders om = (pre @ [ord]) @ rest"
      using Cons.prems(2) by simp
    moreover have "\<forall>x \<in> set (pre @ [ord]). \<not> fills (slippage_engine om) md x"
      using Cons.prems(3) False by simp
    ultimately show ?thesis
      using Cons.IH [OF step] False by simp
  next
    case True
    then obtain b p where b: "md (symbol ord) = Some b"
      and p: "fill_decision (slippage_engine om) ord b = Inr (Some p)"
      by (auto simp: fills_def split: option.splits sum.splits)
    have notin: "ord \<notin> set pre"
      using Cons.prems(3) True by blast
    define om1 where "om1 = om\<lparr>open_orders := pre @ rest,
        filled_orders := filled_orders om @ [filled (cost_engine om) ord p (clk i)]\<rparr>"
    have ex: "execute_fill om ord p (clk i) = Inr om1"
      unfolding om1_def using execute_fill_head [OF Cons.prems(2) notin] .
    have step: "process_loop clk md (Suc i) rest om1 = Inr om'"
      using Cons.prems(1) b p ex by simp
    have "open_orders om1 = pre @ rest" and eng: "slippage_engine om1 = slippage_engine om"
      and "cost_engine om1 = cost_engine om"
      by (simp_all add: om1_def)
    moreover have "\<forall>x \<in> set pre. \<not> fills (slippage_engine om1) md x"
      using Cons.prems(3) eng by simp
    ultimately show ?thesis
      using Cons.IH [OF step] True by simp
  qed
qed

lemma process_orders_open:
  assumes "process_orders clk md om = Inr om'"
  shows "open_orders om' = filter (\<lambda>x. \<not> fills (slippage_engine om) md x) (open_orders om)"
    and "slippage_engine om' = slippage_engine om" and "cost_engine om' = cost_engine om"
  using process_loop_open [of clk md 0 "open_orders om" om om' "[]"] assms
  by (simp_all add: process_orders_def)


lemma process_loop_filled_mono:
  assumes "process_loop clk md i snap om = Inr om'"
  shows "set (filled_orders om) \<subseteq> set (filled_orders om')"
  using assms
proof (induction snap arbitrary: i om)
  case Nil
  then show ?case by simp
next
  case (Cons ord rest)
  show ?case
  proof (cases "fills (slippage_engine om) md ord")
    case False
    then have "process_loop clk md (Suc i) rest om = Inr om'"
      using Cons.prems by (auto simp: fills_def split: option.splits sum.splits)
    then show ?thesis by (rule Cons.IH)
  next
    case True
    then obtain b p where b: "md (symbol ord) = Some b"
      and p: "fill_decision (slippage_engine om) ord b = Inr (Some p)"
      by (auto simp: fills_def split: option.splits sum.splits)
    from Cons.prems b p obtain om1 where ex: "execute_fill om ord p (clk i) = Inr om1"
      and step: "process_loop clk md (Suc i) rest om1 = Inr om'"
      by (auto split: sum.splits)
    from ex have "set (filled_orders om) \<subseteq> set (filled_orders om1)"
      by (auto simp: execute_fill_def split: if_splits)
    with Cons.IH [OF step] show ?thesis by blast
  qed
qed

lemma process_loop_filled_mem:
  assumes "process_loop clk md i snap om = Inr om'"
    and "ord \<in> set snap"
    and "md (symbol ord) = Some b"
    and "fill_decision (slippage_engine om) ord b = Inr (Some p)"
  shows "\<exists>t. filled (cost_engine om) ord p t \<in> set (filled_orders om')"
  using assms
proof (induction snap arbitrary: i om)
  case Nil
  then show ?case by simp
next
  case (Cons x rest)
  show ?case
  proof (cases "fills (slippage_engine om) md x")
    case False
    then have step: "process_loop clk md (Suc i) rest om = Inr om'"
      using Cons.prems(1) by (auto simp: fills_def split: option.splits sum.splits)
    from False Cons.prems(3,4) have "ord \<noteq> x"
      by (auto simp: fills_def)
    with Cons.prems(2) have "ord \<in> set rest" by simp
    from Cons.IH [OF step this Cons.prems(3,4)] show ?thesis .
  next
    case True
    then obtain bx px where b: "md (symbol x) = Some bx"
      and p: "fill_decision (slippage_engine om) x bx = Inr (Some px)"
      by (auto simp: fills_def split: option.splits sum.splits)
    from Cons.prems(1) b p obtain om1 where ex: "execute_fill om x px (clk i) = Inr om1"
      and step: "process_loop clk md (Suc i) rest om1 = Inr om'"
      by (auto split: sum.splits)
    have eng: "slippage_engine om1 = slippage_engine om" "cost_engine om1 = cost_engine om"
      using execute_fill_engines [OF ex] by simp_all
    show ?thesis
    proof (cases "ord = x")
      case True
      with b p Cons.prems(3,4) have "px = p" by simp
      with ex True have "filled (cost_engine om) ord p (clk i) \<in> set (filled_orders om1)"
        by (auto simp: execute_fill_def split: if_splits)
      with process_loop_filled_mono [OF step] show ?thesis by blast
    next
      case False
      with Cons.prems(2) have "ord \<in> set rest" by simp
      from Cons.IH [OF step this Cons.prems(3)] Cons.prems(4) eng show ?thesis by simp
    qed
  qed
qed

lemma process_loop_filled_origin:
  assumes "process_loop clk md i snap om = Inr om'"
    and "x \<in> set (filled_orders om')"
  shows "x \<in> set (filled_orders om)
       \<or> (\<exists>ord \<in> set snap. \<exists>b p t. md (symbol ord) = Some b
            \<and> fill_decision (slippage_engine om) ord b = Inr (Some p)
            \<and> x = filled (cost_engine om) ord p t)"
  using assms
proof (induction snap arbitrary: i om)
  case Nil
  then show ?case by simp
next
  case (Cons y rest)
  show ?case
  proof (cases "fills (slippage_engine om) md y")
    case False
    then have step: "process_loop clk md (Suc i) rest om = Inr om'"
      using Cons.prems(1) by (auto simp: fills_def split: option.splits sum.splits)
    from Cons.IH [OF step Cons.prems(2)] show ?thesis by auto
  next
    case True
    then obtain b p where b: "md (symbol y) = Some b"
      and p: "fill_decision (slippage_engine om) y b = Inr (Some p)"
      by (auto simp: fills_def split: option.splits sum.splits)
    from Cons.prems(1) b p obtain om1 where ex: "execute_fill om y p (clk i) = Inr om1"
      and step: "process_loop clk md (Suc i) rest om1 = Inr om'"
      by (auto split: sum.splits)
    have eng: "slippage_engine om1 = slippage_engine om" "cost_engine om1 = cost_engine om"
      using execute_fill_engines [OF ex] by simp_all
    have f1: "filled_orders om1 = filled_orders om @ [filled (cost_engine om) y p (clk i)]"
      using ex by (auto simp: execute_fill_def split: if_splits)
    from Cons.IH [OF step Cons.prems(2)] have
      "x \<in> set (filled_orders om1)
       \<or> (\<exists>ord \<in> set rest. \<exists>b p t. md (symbol ord) = Some b
            \<and> fill_decision (slippage_engine om) ord b = Inr (Some p)
            \<and> x = filled (cost_engine om) ord p t)"
      unfolding eng .
    then show ?thesis
    proof
      assume "x \<in> set (filled_orders om1)"
      with f1 have "x \<in> set (filled_orders om) \<or> x = filled (cost_engine om) y p (clk i)"
        by auto
      with b p show ?thesis by auto
    next
      assume "\<exists>ord \<in> set rest. \<exists>b p t. md (symbol ord) = Some b
            \<and> fill_decision (slippage_engine om) ord b = Inr (Some p)
            \<and> x = filled (cost_engine om) ord p t"
      then show ?thesis by auto
    qed
  qed
qed

lemma fill_decision_fields:
  assumes "order_type x = order_type y" and "side x = side y" and "price x = price y"
  shows "fill_decision slip x b = fill_decision slip y b"
  using assms by (simp add: fill_decision_def)

lemma filled_fields:
  "symbol (filled c x p t) = symbol x" "order_type (filled c x p t) = order_type x"
  "side (filled c x p t) = side x" "price (filled c x p t) = price x"
  "quantity (filled c x p t) = quantity x" "order_id (filled c x p t) = order_id x"
  "status (filled c x p t) = ''FILLED''" "fill_price (filled c x p t) = p"
  "fill_time (filled c x p t) = Some t"
  "fees (filled c x p t) = total_cost (calculate c p (quantity x) (side x) ''EQUITY'')"
  by (simp_all add: filled_def Let_def)

lemma limit_buy_decision:
  assumes "order_type ord = ''LIMIT''" and "side ord = ''BUY''" and "price ord = Some L"
  shows "fill_decision slip ord b
           = Inr (if bar_low b \<le> L then Some (min L (bar_open b)) else None)"
  using assms by (simp add: fill_decision_def)

text \<open>The call returns whenever every open order that is compared with a price has
  one: \<^verbatim>\<open>list.remove\<close> always finds the order.\<close>

lemma process_loop_returns:
  assumes "open_orders om = pre @ snap"
    and "\<forall>x \<in> set pre. \<not> fills (slippage_engine om) md x"
    and "\<forall>x \<in> set snap. order_type x = ''MARKET'' \<or> price x \<noteq> None"
  shows "\<exists>om'. process_loop clk md i snap om = Inr om'"
  using assms
proof (induction snap arbitrary: i om pre)
  case Nil
  then show ?case by simp
next
  case (Cons ord rest)
  have dec: "\<exists>r. fill_decision (slippage_engine om) ord b = Inr r" for b
    using Cons.prems(3) by (auto simp: fill_decision_def)
  show ?case
  proof (cases "fills (slippage_engine om) md ord")
    case False
    have "process_loop clk md i (ord # rest) om = process_loop clk md (Suc i) rest om"
    proof (cases "md (symbol ord)")
      case None
      then show ?thesis by simp
    next
      case (Some b)
      with False dec [of b] show ?thesis
        by (auto simp: fills_def split: option.splits)
    qed
    moreover have "open_orders om = (pre @ [ord]) @ rest"
      using Cons.prems(1) by simp
    moreover have "\<forall>x \<in> set (pre @ [ord]). \<not> fills (slippage_engine om) md x"
      using Cons.prems(2) False by simp
    moreover have "\<forall>x \<in> set rest. order_type x = ''MARKET'' \<or> price x \<noteq> None"
      using Cons.prems(3) by simp
    ultimately show ?thesis
      using Cons.IH [of om "pre @ [ord]" "Suc i"] by simp
  next
    case True
    then obtain b p where b: "md (symbol ord) = Some b"
      and p: "fill_decision (slippage_engine om) ord b = Inr (Some p)"
      by (auto simp: fills_def split: option.splits sum.splits)
    have notin: "ord \<notin> set pre"
      using Cons.prems(2) True by blast
    define om1 where "om1 = om\<lparr>open_orders := pre @ rest,
        filled_orders := filled_orders om @ [filled (cost_engine om) ord p (clk i)]\<rparr>"
    have ex: "execute_fill om ord p (clk i) = Inr om1"
      unfolding om1_def using execute_fill_head [OF Cons.prems(1) notin] .
    have "process_loop clk md i (ord # rest) om = process_loop clk md (Suc i) rest om1"
      using b p ex by simp
    moreover have "open_orders om1 = pre @ rest"
      by (simp add: om1_def)
    moreover have "\<forall>x \<in> set pre. \<not> fills (slippage_engine om1) md x"
      using Cons.prems(2) by (simp add: om1_def)
    moreover have "\<forall>x \<in> set rest. order_type x = ''MARKET'' \<or> price x \<noteq> None"
      using Cons.prems(3) by simp
    ultimately show ?thesis
      using Cons.IH [of om1 pre "Suc i"] by simp
  qed
qed

lemma process_orders_returns:
  assumes "\<forall>x \<in> set (open_orders om). order_type x = ''MARKET'' \<or> price x \<noteq> None"
  shows "\<exists>om'. process_orders clk md om = Inr om'"
  using process_loop_returns [of om "[]" "open_orders om" md clk 0] assms
  by (simp add: process_orders_def)

text \<open>
  C3. For an open LIMIT BUY order with limit \<open>L\<close> and a candle for its symbol,
  \<^verbatim>\<open>process_orders\<close> takes the order out of the open list if and only if the low of the
  candle is at most \<open>L\<close>; when it does, the order is in the filled list with execution
  price \<open>min L open\<close> (status FILLED, fees of that price); when it does not, the filled
  list gains no fill of that order.
\<close>

theorem limit_buy_fill:
  assumes "process_orders clk md om = Inr om'"
    and "ord \<in> set (open_orders om)"
    and "order_type ord = ''LIMIT''" and "side ord = ''BUY''" and "price ord = Some L"
    and "md (symbol ord) = Some b"
  shows "(ord \<notin> set (open_orders om') \<longleftrightarrow> bar_low b \<le> L)
       \<and> (bar_low b \<le> L \<longrightarrow>
            (\<exists>t. filled (cost_engine om) ord (min L (bar_open b)) t \<in> set (filled_orders om')))
       \<and> (\<not> bar_low b \<le> L \<longrightarrow>
            (\<forall>p t. filled (cost_engine om) ord p t \<in> set (filled_orders om')
                \<longrightarrow> filled (cost_engine om) ord p t \<in> set (filled_orders om)))"
proof -
  let ?slip = "slippage_engine om"
  have dec: "fill_decision ?slip ord b
               = Inr (if bar_low b \<le> L then Some (min L (bar_open b)) else None)"
    using assms(3-5) by (rule limit_buy_decision)
  have fl: "fills ?slip md ord \<longleftrightarrow> bar_low b \<le> L"
    using assms(6) dec by (simp add: fills_def)
  have "open_orders om' = filter (\<lambda>x. \<not> fills ?slip md x) (open_orders om)"
    using assms(1) by (rule process_orders_open)
  with assms(2) fl have one: "ord \<notin> set (open_orders om') \<longleftrightarrow> bar_low b \<le> L"
    by simp
  have loop: "process_loop clk md 0 (open_orders om) om = Inr om'"
    using assms(1) by (simp add: process_orders_def)
  have two: "\<exists>t. filled (cost_engine om) ord (min L (bar_open b)) t \<in> set (filled_orders om')"
    if "bar_low b \<le> L"
    using process_loop_filled_mem [OF loop assms(2) assms(6)] dec that by simp
  have three: "filled (cost_engine om) ord p t \<in> set (filled_orders om)"
    if no: "\<not> bar_low b \<le> L" and mem: "filled (cost_engine om) ord p t \<in> set (filled_orders om')"
    for p t
  proof (rule ccontr)
    assume "filled (cost_engine om) ord p t \<notin> set (filled_orders om)"
    with process_loop_filled_origin [OF loop mem]
    obtain y yb py ty where y: "y \<in> set (open_orders om)" "md (symbol y) = Some yb"
      "fill_decision ?slip y yb = Inr (Some py)"
      "filled (cost_engine om) ord p t = filled (cost_engine om) y py ty"
      by blast
    from y(4) have "symbol ord = symbol y" "order_type ord = order_type y"
      "side ord = side y" "price ord = price y"
      using filled_fields(1-4) by metis+
    with y(2,3) assms(6) have "fill_decision ?slip ord b = Inr (Some py)"
      using fill_decision_fields [where x = ord and y = y and b = b and slip = ?slip] by simp
    with dec no show False by simp
  qed
  from one two three show ?thesis by blast
qed


theorem limit_buy_fill_witness:
  "\<exists>om'. process_orders (\<lambda>i. 7)
            [''RELIANCE'' \<mapsto> \<lparr>bar_open = 98, bar_high = 101, bar_low = 97, bar_close = 99\<rparr>]
            (fst (place_order OrderManager
                    (Order ''RELIANCE'' 10 ''BUY'' ''LIMIT'' (Some 100) ''a1b2c3d4''))) = Inr om'
      \<and> Order ''RELIANCE'' 10 ''BUY'' ''LIMIT'' (Some 100) ''a1b2c3d4'' \<notin> set (open_orders om')
      \<and> (\<exists>t. filled (IndianTaxModel 20)
                 (Order ''RELIANCE'' 10 ''BUY'' ''LIMIT'' (Some 100) ''a1b2c3d4'') 98 t
               \<in> set (filled_orders om'))"
proof -
  let ?ord = "Order ''RELIANCE'' 10 ''BUY'' ''LIMIT'' (Some 100) ''a1b2c3d4''"
  let ?om = "fst (place_order OrderManager ?ord)"
  let ?b = "\<lparr>bar_open = 98, bar_high = 101, bar_low = 97, bar_close = 99\<rparr>"
  let ?md = "[''RELIANCE'' \<mapsto> ?b]"
  have om: "?om = OrderManager\<lparr>open_orders := [?ord]\<rparr>"
    by (simp add: place_order_def Order_def OrderManager_def)
  have "\<exists>om'. process_orders (\<lambda>i. 7) ?md ?om = Inr om'"
    unfolding om
    by (simp add: process_orders_def Order_def OrderManager_def fill_decision_def execute_fill_def)
  then obtain om' where run: "process_orders (\<lambda>i. 7) ?md ?om = Inr om'" ..
  have mem: "?ord \<in> set (open_orders ?om)"
    unfolding om by simp
  have ce: "cost_engine ?om = IndianTaxModel 20"
    unfolding om by (simp add: OrderManager_def)
  from limit_buy_fill [OF run mem, of 100 ?b] ce
  have "?ord \<notin> set (open_orders om')
      \<and> (\<exists>t. filled (IndianTaxModel 20) ?ord 98 t \<in> set (filled_orders om'))"
    by (simp add: Order_def)
  with run show ?thesis by blast
qed

text \<open>Every open order of a reachable state of the order manager has a positive
  quantity.\<close>

lemma reachable_positive:
  assumes "reachable om"
  shows "\<forall>x \<in> set (open_orders om). 0 < quantity x"
  using assms
proof (induction rule: reachable.induct)
  case init
  show ?case by (simp add: OrderManager_def)
next
  case (place om ord)
  then show ?case by (auto simp: place_order_def)
next
  case (process om clk md om')
  from process.hyps(2) have "set (open_orders om') \<subseteq> set (open_orders om)"
    by (simp add: process_orders_open(1))
  with process.IH show ?case by blast
qed

text \<open>
  C8. An order with quantity at most 0 is rejected by \<^verbatim>\<open>place_order\<close>: its status
  becomes REJECTED and the manager is unchanged. No reachable state of the manager has
  the order, before or after the rejection, in its open list, and every open order of
  every reachable state has a positive quantity.
\<close>

theorem rejected_never_open:
  assumes "quantity ord \<le> 0" and "reachable om" and "reachable om'"
  shows "place_order om ord = (om, ord\<lparr>status := ''REJECTED''\<rparr>, order_id ord)
       \<and> ord \<notin> set (open_orders om')
       \<and> ord\<lparr>status := ''REJECTED''\<rparr> \<notin> set (open_orders om')
       \<and> (\<forall>x \<in> set (open_orders om'). 0 < quantity x)"
proof -
  have inv: "\<forall>x \<in> set (open_orders om'). 0 < quantity x"
    using assms(3) by (rule reachable_positive)
  have "ord \<notin> set (open_orders om')"
    using inv assms(1) by auto
  moreover have "ord\<lparr>status := ''REJECTED''\<rparr> \<notin> set (open_orders om')"
    using inv assms(1) by auto
  moreover have "place_order om ord = (om, ord\<lparr>status := ''REJECTED''\<rparr>, order_id ord)"
    using assms(1) by (simp add: place_order_def)
  ultimately show ?thesis using inv by blast
qed

theorem rejected_never_open_witness:
  "quantity (Order ''RELIANCE'' 0 ''BUY'' ''MARKET'' None ''0badc0de'') \<le> 0
   \<and> reachable OrderManager
   \<and> reachable (fst (place_order (fst (place_order OrderManager
          (Order ''RELIANCE'' 0 ''BUY'' ''MARKET'' None ''0badc0de'')))
          (Order ''RELIANCE'' 5 ''BUY'' ''MARKET'' None ''a1b2c3d4'')))
   \<and> place_order OrderManager (Order ''RELIANCE'' 0 ''BUY'' ''MARKET'' None ''0badc0de'')
       = (OrderManager, (Order ''RELIANCE'' 0 ''BUY'' ''MARKET'' None ''0badc0de'')\<lparr>status := ''REJECTED''\<rparr>,
          ''0badc0de'')
   \<and> Order ''RELIANCE'' 0 ''BUY'' ''MARKET'' None ''0badc0de''
        \<notin> set (open_orders (fst (place_order (fst (place_order OrderManager
          (Order ''RELIANCE'' 0 ''BUY'' ''MARKET'' None ''0badc0de'')))
          (Order ''RELIANCE'' 5 ''BUY'' ''MARKET'' None ''a1b2c3d4''))))"
proof -
  let ?bad = "Order ''RELIANCE'' 0 ''BUY'' ''MARKET'' None ''0badc0de''"
  let ?good = "Order ''RELIANCE'' 5 ''BUY'' ''MARKET'' None ''a1b2c3d4''"
  have q: "quantity ?bad \<le> 0" by (simp add: Order_def)
  have r0: "reachable OrderManager" by (rule reachable.init)
  have r2: "reachable (fst (place_order (fst (place_order OrderManager ?bad)) ?good))"
    by (intro reachable.place reachable.init)
  have id: "order_id ?bad = ''0badc0de''" by (simp add: Order_def)
  note th = rejected_never_open [OF q r0 r2]
  from th have a: "place_order OrderManager ?bad
      = (OrderManager, ?bad\<lparr>status := ''REJECTED''\<rparr>, order_id ?bad)"
    by (rule conjunct1)
  from th have b: "?bad \<notin> set (open_orders (fst (place_order (fst (place_order OrderManager ?bad)) ?good)))"
    by blast
  show ?thesis
    by (intro conjI q r0 r2 a [unfolded id] b)
qed

subsection \<open>Event loop\<close>

text \<open>
  What the parts of one iteration do to the engine: a fill leaves the order manager
  alone; the queue of fills is empty after the \<^verbatim>\<open>while\<close> loop, which leaves the
  open orders alone; the trading logic either changes nothing or, with no order open,
  places one market order of positive quantity; and a market order that is alone in the
  open list fills on the next candle of its symbol.
\<close>

lemma handle_fill_keeps:
  assumes "handle_fill e ord = Inr e'"
  shows "oms e' = oms e" and "ticker e' = ticker e"
  using assms
  by (auto simp: handle_fill_def Let_def split: if_splits option.splits sum.splits)

lemma drain_filled_result:
  assumes "drain_filled e = Inr e'"
  shows "filled_orders (oms e') = [] \<and> open_orders (oms e') = open_orders (oms e)
       \<and> slippage_engine (oms e') = slippage_engine (oms e)
       \<and> cost_engine (oms e') = cost_engine (oms e) \<and> ticker e' = ticker e"
  using assms
proof (induction e rule: drain_filled.induct)
  case (1 self)
  show ?case
  proof (cases "filled_orders (oms self)")
    case Nil
    with "1.prems" have "e' = self"
      by (simp add: drain_filled.simps [of self])
    with Nil show ?thesis by simp
  next
    case (Cons filled_order rest)
    let ?popped = "self\<lparr>oms := (oms self)\<lparr>filled_orders := rest\<rparr>\<rparr>"
    from "1.prems" Cons obtain mid where h: "handle_fill ?popped filled_order = Inr mid"
      and d: "drain_filled mid = Inr e'"
      by (simp add: drain_filled.simps [of self] split: sum.splits)
    from handle_fill_keeps [OF h] have "oms mid = (oms self)\<lparr>filled_orders := rest\<rparr>"
      and "ticker mid = ticker self"
      by simp_all
    with "1.IH" [OF Cons h d] show ?thesis by simp
  qed
qed

lemma place_entry_order_effect:
  assumes "place_entry_order em p new_id = Inr e'" and "open_orders (oms em) = []"
  shows "e' = em
       \<or> (\<exists>q. 0 < q \<and> e' = em\<lparr>oms := (oms em)\<lparr>open_orders :=
                  [Order (ticker em) q ''BUY'' ''MARKET'' None new_id]\<rparr>\<rparr>)"
  using assms
  by (auto simp: place_entry_order_def place_order_def Order_def Let_def
           split: sum.splits if_splits)

lemma place_exit_order_effect:
  assumes "0 < holdings em" and "open_orders (oms em) = []"
  shows "place_exit_order em new_id
           = em\<lparr>oms := (oms em)\<lparr>open_orders :=
                  [Order (ticker em) (holdings em) ''SELL'' ''MARKET'' None new_id]\<rparr>\<rparr>"
  using assms by (simp add: place_exit_order_def place_order_def Order_def)

lemma trading_logic_effect:
  assumes "trading_logic em tk = Inr e'"
  shows "e' = em
       \<or> (open_orders (oms em) = []
          \<and> (\<exists>q sd. 0 < q \<and> e' = em\<lparr>oms := (oms em)\<lparr>open_orders :=
                  [Order (ticker em) q sd ''MARKET'' None (fresh_id tk)]\<rparr>\<rparr>))"
proof (cases "open_orders (oms em) = []")
  case False
  with assms show ?thesis by (simp add: trading_logic_def)
next
  case True
  consider (entry) "signal (row tk) = 1 \<and> holdings em = 0"
    | (exit) "\<not> (signal (row tk) = 1 \<and> holdings em = 0)" "0 < holdings em" "signal (row tk) = - 1"
    | (idle) "\<not> (signal (row tk) = 1 \<and> holdings em = 0)" "\<not> (0 < holdings em \<and> signal (row tk) = - 1)"
    by blast
  then show ?thesis
  proof cases
    case entry
    with assms True have "place_entry_order em (row_close (row tk)) (fresh_id tk) = Inr e'"
      by (simp add: trading_logic_def)
    from place_entry_order_effect [OF this True] True show ?thesis by blast
  next
    case exit
    with assms True have "e' = place_exit_order em (fresh_id tk)"
      by (auto simp: trading_logic_def split: if_splits)
    with place_exit_order_effect [OF exit(2) True] True exit(2) show ?thesis by blast
  next
    case idle
    with assms True have "e' = em"
      by (auto simp: trading_logic_def split: if_splits)
    then show ?thesis by simp
  qed
qed

lemma market_order_fills:
  assumes "open_orders om = [ord]" and "order_type ord = ''MARKET''"
    and "md (symbol ord) = Some b"
  shows "process_orders clk md om
           = Inr (om\<lparr>open_orders := [],
                      filled_orders := filled_orders om @
                        [filled (cost_engine om) ord
                           (calculate_fill_price (slippage_engine om) (bar_close b) (side ord) None)
                           (clk 0)]\<rparr>)"
  using assms by (simp add: process_orders_def fill_decision_def execute_fill_def)

text \<open>The two bars of the example, evaluated.\<close>

lemma example_step_1: "run_step example_engine example_tick_1 = Inr example_engine_1"
  by (simp add: run_step_def settle_def market_snapshot_def process_orders_def fill_decision_def
        execute_fill_def filled_def handle_fill_def trading_logic_def place_exit_order_def
        place_order_def Order_def example_engine_def example_tick_1_def BacktestEngine_def
        OrderManager_def SlippageModel_def calculate_fill_price_def example_buy_fees_def
        example_engine_1_def Let_def)

lemma example_step_2: "run_step example_engine_1 example_tick_2 = Inr example_engine_2"
  by (simp add: run_step_def settle_def market_snapshot_def process_orders_def fill_decision_def
        execute_fill_def filled_def handle_fill_def trading_logic_def log_trade_def
        Order_def example_tick_2_def BacktestEngine_def example_engine_1_def example_engine_2_def
        OrderManager_def SlippageModel_def calculate_fill_price_def example_sell_fees_def
        example_trade_def Let_def)

lemma example_run:
  "run_loop example_engine [example_tick_1, example_tick_2] = Inr example_engine_2"
  by (simp add: example_step_1 example_step_2)

lemma example_fees:
  "example_buy_fees = 1.546662945" "example_sell_fees = 1.5347112605"
  by (simp_all add: example_buy_fees_def example_sell_fees_def calculate_def IndianTaxModel_def Let_def)

text \<open>
  C1. In every iteration of the loop that returns, the fills of the bar are applied
  before the signal is read: the state \<open>em\<close> that the trading logic starts from is the
  one after \<^verbatim>\<open>process_orders\<close>, the queue of fills and the mark-to-market, its queue of
  fills is empty, and the orders it took out of the open list are orders that were open
  before the iteration. The trading logic changes neither cash, holdings, ledger nor
  equity, and fills nothing. An order that it places is alone in the open list at
  the end of the iteration, with status OPEN and no fill time: it did not fill on the bar
  whose close produced it. It is a market order on the ticker of the engine, and
  \<^verbatim>\<open>process_orders\<close> of the next iteration, whatever the next bar is, fills it at the
  close of that bar (with slippage).
\<close>

theorem fills_before_signal:
  assumes "run_step e tk = Inr e'"
  shows "\<exists>em. settle e tk = Inr em \<and> trading_logic em tk = Inr e'
           \<and> filled_orders (oms em) = []
           \<and> open_orders (oms em)
               = filter (\<lambda>x. \<not> fills (slippage_engine (oms e)) (market_snapshot e tk) x)
                   (open_orders (oms e))
           \<and> cash e' = cash em \<and> holdings e' = holdings em \<and> ledger e' = ledger em
           \<and> equity e' = equity em \<and> portfolio_history e' = portfolio_history em
           \<and> filled_orders (oms e') = []
           \<and> (open_orders (oms e') = open_orders (oms em)
               \<or> (\<exists>ord. open_orders (oms em) = [] \<and> open_orders (oms e') = [ord]
                     \<and> status ord = ''OPEN'' \<and> fill_time ord = None
                     \<and> order_type ord = ''MARKET'' \<and> symbol ord = ticker e'
                     \<and> 0 < quantity ord
                     \<and> (\<forall>tk'. process_orders (now tk') (market_snapshot e' tk') (oms e')
                            = Inr ((oms e')\<lparr>open_orders := [],
                                 filled_orders :=
                                   [filled (cost_engine (oms e')) ord
                                      (calculate_fill_price (slippage_engine (oms e'))
                                         (row_close (row tk')) (side ord) None)
                                      (now tk' 0)]\<rparr>))))"
proof -
  from assms obtain em where s: "settle e tk = Inr em" and t: "trading_logic em tk = Inr e'"
    by (auto simp: run_step_def split: sum.splits)
  from s obtain om1 e1 where
    p: "process_orders (now tk) (market_snapshot e tk) (oms e) = Inr om1"
    and d: "drain_filled (e\<lparr>oms := om1\<rparr>) = Inr e1"
    and em: "em = e1\<lparr>equity := cash e1 + of_int (holdings e1) * row_close (row tk),
                      portfolio_history := portfolio_history e1 @
                        [(date tk, cash e1 + of_int (holdings e1) * row_close (row tk))]\<rparr>"
    by (auto simp: settle_def Let_def split: sum.splits)
  from drain_filled_result [OF d] have e1: "filled_orders (oms e1) = []"
    "open_orders (oms e1) = open_orders om1"
    by simp_all
  have f_em: "filled_orders (oms em) = []"
    using e1(1) em by simp
  have o_em: "open_orders (oms em)
      = filter (\<lambda>x. \<not> fills (slippage_engine (oms e)) (market_snapshot e tk) x) (open_orders (oms e))"
    using e1(2) em process_orders_open(1) [OF p] by simp
  from trading_logic_effect [OF t] consider (same) "e' = em"
    | (placed) q sd where "open_orders (oms em) = []" "0 < q"
        "e' = em\<lparr>oms := (oms em)\<lparr>open_orders := [Order (ticker em) q sd ''MARKET'' None (fresh_id tk)]\<rparr>\<rparr>"
    by blast
  then show ?thesis
  proof cases
    case same
    with s t f_em o_em show ?thesis by simp
  next
    case placed
    let ?ord = "Order (ticker em) q sd ''MARKET'' None (fresh_id tk)"
    have keep: "cash e' = cash em" "holdings e' = holdings em" "ledger e' = ledger em"
      "equity e' = equity em" "portfolio_history e' = portfolio_history em"
      "filled_orders (oms e') = []" "open_orders (oms e') = [?ord]" "ticker e' = ticker em"
      using placed(3) f_em by simp_all
    have ord: "status ?ord = ''OPEN''" "fill_time ?ord = None" "order_type ?ord = ''MARKET''"
      "symbol ?ord = ticker e'" "0 < quantity ?ord"
      using placed(2) keep(8) by (simp_all add: Order_def)
    have nxt: "process_orders (now tk') (market_snapshot e' tk') (oms e')
        = Inr ((oms e')\<lparr>open_orders := [],
                 filled_orders :=
                   [filled (cost_engine (oms e')) ?ord
                      (calculate_fill_price (slippage_engine (oms e'))
                         (row_close (row tk')) (side ?ord) None)
                      (now tk' 0)]\<rparr>)" for tk'
    proof -
      let ?b = "\<lparr>bar_open = row_open (row tk'), bar_high = row_high (row tk'),
                  bar_low = row_low (row tk'), bar_close = row_close (row tk')\<rparr>"
      have "market_snapshot e' tk' (symbol ?ord) = Some ?b"
        using ord(4) by (simp add: market_snapshot_def)
      with keep(7) ord(3)
      have "process_orders (now tk') (market_snapshot e' tk') (oms e')
          = Inr ((oms e')\<lparr>open_orders := [],
                      filled_orders := filled_orders (oms e') @
                        [filled (cost_engine (oms e')) ?ord
                           (calculate_fill_price (slippage_engine (oms e')) (bar_close ?b) (side ?ord) None)
                           (now tk' 0)]\<rparr>)"
        by (rule market_order_fills [where md = "market_snapshot e' tk'" and b = ?b])
      with keep(6) show ?thesis by simp
    qed
    from s t f_em o_em keep ord nxt placed(1) show ?thesis by blast
  qed
qed

theorem fills_before_signal_witness:
  "\<exists>e' em. run_step example_engine example_tick_1 = Inr e'
      \<and> settle example_engine example_tick_1 = Inr em
      \<and> trading_logic em example_tick_1 = Inr e'
      \<and> open_orders (oms em) = []
      \<and> holdings em = 10 \<and> holdings e' = 10
      \<and> filled_orders (oms e') = []
      \<and> open_orders (oms e') = [Order ''RELIANCE'' 10 ''SELL'' ''MARKET'' None ''e5f6a7b8'']"
proof -
  have run: "run_step example_engine example_tick_1 = Inr example_engine_1"
    by (rule example_step_1)
  have h: "holdings example_engine_1 = 10"
    and o: "open_orders (oms example_engine_1)
              = [Order ''RELIANCE'' 10 ''SELL'' ''MARKET'' None ''e5f6a7b8'']"
    by (simp_all add: example_engine_1_def)
  from fills_before_signal [OF run] obtain em where
    em: "settle example_engine example_tick_1 = Inr em"
      "trading_logic em example_tick_1 = Inr example_engine_1"
      "holdings example_engine_1 = holdings em" "filled_orders (oms example_engine_1) = []"
      "open_orders (oms em)
         = filter (\<lambda>x. \<not> fills (slippage_engine (oms example_engine))
                          (market_snapshot example_engine example_tick_1) x)
             (open_orders (oms example_engine))"
    by blast
  have "fills (slippage_engine (oms example_engine)) (market_snapshot example_engine example_tick_1)
          (Order ''RELIANCE'' 10 ''BUY'' ''MARKET'' None ''a1b2c3d4'')"
    by (simp add: fills_def market_snapshot_def example_engine_def BacktestEngine_def
          fill_decision_def Order_def)
  with em(5) have "open_orders (oms em) = []"
    by (simp add: example_engine_def place_order_def Order_def OrderManager_def)
  with run em h o show ?thesis by auto
qed

text \<open>What a BUY fill followed by a SELL fill does to the ledger: one record, with the
  quantity of the SELL fill, and a net PnL that subtracts the fees of the SELL fill.\<close>

lemma round_trip_record:
  assumes "side b = ''BUY''" and "side s = ''SELL''"
    and "handle_fill e b = Inr e1" and "handle_fill e1 s = Inr e2"
  shows "\<exists>r. ledger e2 = ledger e @ [r] \<and> tr_quantity r = quantity s
           \<and> tr_entry_price r = fill_price b \<and> tr_exit_price r = fill_price s
           \<and> tr_fees r = fees s
           \<and> tr_net_pnl r = (fill_price s - fill_price b) * of_int (quantity s) - fees s"
  using assms
  by (auto simp: handle_fill_def log_trade_def Let_def split: if_splits option.splits sum.splits)

text \<open>
  C2, on the run of two bars. The BUY fill of 10 shares at 100.05 (fees 1.546662945)
  followed by the SELL fill of the 10 shares at 109.945 (fees 1.5347112605) appends
  exactly one record, with quantity 10. Its net PnL is 98.95 minus the fees of the SELL
  fill alone, 97.4152887395; the gross PnL minus the fees of both fills is
  95.8686257945. The fees of the entry fill left the cash but are not in the record.
\<close>

theorem round_trip_omits_entry_fees:
  "run_loop example_engine [example_tick_1, example_tick_2] = Inr example_engine_2
   \<and> ledger example_engine = [] \<and> ledger example_engine_2 = [example_trade]
   \<and> tr_quantity example_trade = 10
   \<and> tr_entry_price example_trade = 100.05 \<and> tr_exit_price example_trade = 109.945
   \<and> example_buy_fees = 1.546662945 \<and> example_sell_fees = 1.5347112605
   \<and> tr_net_pnl example_trade = (109.945 - 100.05) * 10 - example_sell_fees
   \<and> tr_net_pnl example_trade = 97.4152887395
   \<and> (109.945 - 100.05) * 10 - (example_buy_fees + example_sell_fees) = 95.8686257945
   \<and> tr_net_pnl example_trade
        \<noteq> (109.945 - 100.05) * 10 - (example_buy_fees + example_sell_fees)"
proof -
  have l0: "ledger example_engine = []"
    by (simp add: example_engine_def BacktestEngine_def)
  have l2: "ledger example_engine_2 = [example_trade]"
    by (simp add: example_engine_2_def)
  have t: "tr_quantity example_trade = 10" "tr_entry_price example_trade = 100.05"
    "tr_exit_price example_trade = 109.945"
    "tr_net_pnl example_trade = (109.945 - 100.05) * 10 - example_sell_fees"
    by (simp_all add: example_trade_def)
  have n: "tr_net_pnl example_trade = 97.4152887395"
    by (simp add: example_trade_def example_fees)
  have c: "(109.945 - 100.05) * 10 - (example_buy_fees + example_sell_fees) = 95.8686257945"
    by (simp add: example_fees)
  have d: "tr_net_pnl example_trade
        \<noteq> (109.945 - 100.05) * 10 - (example_buy_fees + example_sell_fees)"
    unfolding n c by simp
  show ?thesis
    by (intro conjI example_run l0 l2 t example_fees n c d)
qed

end
